theory Spec2Isabelle
  imports Main "HOL-Library.Word"
begin

section \<open>GraphSlick plugin module: data\<close>

text \<open>
  A shallow embedding of \<^verbatim>\<open>plugin.cpp\<close>: the graph view class
  \<^verbatim>\<open>gsgraphview_t\<close> and the chooser class \<^verbatim>\<open>gschooser_t\<close>.
  Member functions take the object as a record and return the updated record.
  Everything the module prints with \<^verbatim>\<open>msg()\<close> and every call that
  leaves the module towards the host user interface is appended to an event log kept in
  the object, so that "a message is surfaced" and "the graph is shown" are facts about a
  value.

  The headers \<^verbatim>\<open>groupman.h\<close>, \<^verbatim>\<open>algo.hpp\<close> and
  \<^verbatim>\<open>colorgen.h\<close> and the host SDK are not part of the module. What the
  module calls from them is collected in the record \<open>host_t\<close> and passed to every
  function that needs it: the theorems hold for every implementation of these calls.
\<close>

subsection \<open>Constants and enumerations\<close>

type_synonym bgcolor_t = "32 word"
type_synonym ea_t = "32 word"

definition STR_GS_MSG :: string where
  "STR_GS_MSG = ''GS: ''"

definition NODE_SEL_COLOR :: bgcolor_t where
  "NODE_SEL_COLOR = 0x7C75AD"

text \<open>
  \<^verbatim>\<open>cur_view_mode\<close> is compared against \<^verbatim>\<open>gvrfm_single_mode\<close> and
  \<^verbatim>\<open>gvrfm_combined_mode\<close> only, so any other value behaves as
  \<^verbatim>\<open>gvrfm_soft\<close> does.
\<close>

datatype gvrefresh_modes_e = gvrfm_soft | gvrfm_single_mode | gvrfm_combined_mode

datatype gsch_line_type_t = chlt_gm | chlt_sg | chlt_ng

text \<open>Arguments of a \<^verbatim>\<open>msg()\<close> format string, and the events of the log.\<close>

datatype fmt_arg = ArgInt int | ArgStr string | ArgEa ea_t

datatype gs_event =
    Msg string "fmt_arg list"
  | RefreshViewer
  | RefreshChooser string
  | GmDelete
  | GmNew
  | GmParse string bool bool
  | GmCombineNgl nat
  | SanitizeGroupman bool
  | GmInitializeLookups
  | CreateTForm bool
  | OpenTForm
  | CloseTForm

subsection \<open>Ordered maps\<close>

text \<open>
  \<^verbatim>\<open>std::map\<close> is an association list in iteration order.
  \<open>omap_assign\<close> is \<^verbatim>\<open>m[k] = v\<close>, \<open>omap_find\<close> is
  \<^verbatim>\<open>m.find(k)\<close> (\<open>None\<close> for \<^verbatim>\<open>end()\<close>) and
  \<open>omap_erase\<close> erases the element \<^verbatim>\<open>find\<close> returned.
\<close>

fun omap_assign :: "'k::linorder \<Rightarrow> 'v \<Rightarrow> ('k \<times> 'v) list \<Rightarrow> ('k \<times> 'v) list" where
  "omap_assign k v [] = [(k, v)]"
| "omap_assign k v (p # m) =
     (if k < fst p then (k, v) # p # m
      else if k = fst p then (k, v) # m
      else p # omap_assign k v m)"

fun omap_find :: "('k \<times> 'v) list \<Rightarrow> 'k \<Rightarrow> 'v option" where
  "omap_find [] k = None"
| "omap_find (p # m) k = (if fst p = k then Some (snd p) else omap_find m k)"

fun omap_erase :: "'k \<Rightarrow> ('k \<times> 'v) list \<Rightarrow> ('k \<times> 'v) list" where
  "omap_erase k [] = []"
| "omap_erase k (p # m) = (if fst p = k then m else p # omap_erase k m)"

type_synonym ncolormap_t = "(int \<times> bgcolor_t) list"

subsection \<open>Group model types, as the module uses them\<close>

record nodedef_t =
  nd_nid :: int
  nd_start :: ea_t
  nd_end :: ea_t

type_synonym nodegroup_t = "nodedef_t list"

text \<open>A \<^verbatim>\<open>pnodegroup_t\<close> is a pointer: \<open>None\<close> is \<^verbatim>\<open>NULL\<close>.\<close>

type_synonym pnodegroup_t = "nodegroup_t option"

record supergroup_t =
  sg_id :: string
  sg_name :: string
  sg_is_synthetic :: bool
  sg_groups :: "nodegroup_t list"

type_synonym psupergroup_t = "supergroup_t option"

record nodeloc_t =
  loc_sg :: psupergroup_t

record gnode_t =
  gn_text :: string
  gn_hint :: string

type_synonym gnodemap_t = "(int \<times> gnode_t) list"

text \<open>\<^verbatim>\<open>ng2nid_t\<close>: node group pointer to graph node id, in iteration order.\<close>

type_synonym ng2nid_t = "(pnodegroup_t \<times> int) list"

record gsoptions_t =
  append_node_id :: bool
  manual_refresh_mode :: bool
  highlight_syntethic_nodes :: bool
  show_options_dialog_next_time :: bool
  enlarge_group_name :: bool
  debug :: bool
  start_view_mode :: gvrefresh_modes_e

subsection \<open>What the module calls from outside\<close>

text \<open>
  \<open>'gm\<close> is a \<^verbatim>\<open>groupman_t\<close> object, \<open>'fc\<close> a
  \<^verbatim>\<open>qflow_chart_t\<close> and \<open>'mg\<close> a \<^verbatim>\<open>mutable_graph_t\<close>.
  A call that writes through a pointer or reference argument returns the new value of
  that argument next to its result. \<open>create_tform n\<close> says whether the host gave a
  window handle at the \<open>n\<close>-th attempt of \<^verbatim>\<open>show_graph\<close>;
  \<open>get_func\<close> returns \<^verbatim>\<open>f->startEA\<close>.
\<close>

record ('gm, 'fc, 'mg) host_t =
  gm_new :: 'gm
  gm_parse :: "string \<Rightarrow> bool \<Rightarrow> 'gm \<Rightarrow> bool \<times> 'gm"
  gm_get_first_nd :: "'gm \<Rightarrow> nodedef_t option"
  gm_initialize_lookups :: "'gm \<Rightarrow> 'gm"
  gm_get_path_sgl :: "'gm \<Rightarrow> supergroup_t list"
  gm_find_nodeid_loc :: "'gm \<Rightarrow> int \<Rightarrow> nodeloc_t option"
  gm_combine_ngl :: "pnodegroup_t list \<Rightarrow> 'gm \<Rightarrow> 'gm"
  ng_get_first_node :: "nodegroup_t \<Rightarrow> nodedef_t option"
  sanitize_groupman :: "'gm \<Rightarrow> 'fc \<Rightarrow> bool \<times> 'gm"
  get_func :: "ea_t \<Rightarrow> ea_t option"
  get_func_flowchart :: "ea_t \<Rightarrow> 'fc \<Rightarrow> bool \<times> 'fc"
  func_to_mgraph :: "'mg \<Rightarrow> gnodemap_t \<Rightarrow> 'fc \<Rightarrow> bool \<Rightarrow> 'mg \<times> gnodemap_t"
  fc_to_combined_mg ::
    "'gm \<Rightarrow> gnodemap_t \<Rightarrow> ng2nid_t \<Rightarrow> 'mg \<Rightarrow> 'fc \<Rightarrow> gnodemap_t \<times> ng2nid_t \<times> 'mg"
  mg_clear :: "'mg \<Rightarrow> 'mg"
  create_tform :: "nat \<Rightarrow> bool"
  create_graph_viewer :: bool

section \<open>The graph view: \<^verbatim>\<open>gsgraphview_t\<close>\<close>

text \<open>
  \<open>gv\<close>, \<open>form\<close> and \<open>parent_ref\<close> say whether the pointer is set.
  \<open>gm\<close> and \<open>options\<close> are the objects the view's pointers refer to.
  The menu item ids \<^verbatim>\<open>idm_*\<close> are not kept: each branch of
  \<^verbatim>\<open>on_menu\<close> that is needed is a function of its own.
\<close>

record ('gm, 'fc) gsgraphview_t =
  cur_node :: int
  gv :: bool
  form :: bool
  gm :: 'gm
  options :: gsoptions_t
  node_map :: gnodemap_t
  ng2id :: ng2nid_t
  func_fc :: 'fc
  refresh_mode :: gvrefresh_modes_e
  cur_view_mode :: gvrefresh_modes_e
  parent_ref :: bool
  in_sel_mode :: bool
  highlighted_nodes :: ncolormap_t
  selected_nodes :: ncolormap_t
  out :: "gs_event list"

definition emit :: "gs_event \<Rightarrow> ('gm, 'fc) gsgraphview_t \<Rightarrow> ('gm, 'fc) gsgraphview_t" where
  "emit e s = s\<lparr>out := out s @ [e]\<rparr>"

definition get_node :: "('gm, 'fc) gsgraphview_t \<Rightarrow> int \<Rightarrow> gnode_t option" where
  "get_node s nid = omap_find (node_map s) nid"

fun get_ng_from_ngid_scan :: "ng2nid_t \<Rightarrow> int \<Rightarrow> pnodegroup_t" where
  "get_ng_from_ngid_scan [] ngid = None"
| "get_ng_from_ngid_scan (it # rest) ngid =
     (if snd it = ngid then fst it else get_ng_from_ngid_scan rest ngid)"

definition get_ng_from_ngid :: "('gm, 'fc) gsgraphview_t \<Rightarrow> int \<Rightarrow> pnodegroup_t" where
  "get_ng_from_ngid s ngid = get_ng_from_ngid_scan (ng2id s) ngid"

definition refresh_view :: "('gm, 'fc) gsgraphview_t \<Rightarrow> ('gm, 'fc) gsgraphview_t" where
  "refresh_view s = s\<lparr>refresh_mode := gvrfm_single_mode\<rparr>"

definition redo_layout ::
  "gvrefresh_modes_e \<Rightarrow> ('gm, 'fc) gsgraphview_t \<Rightarrow> ('gm, 'fc) gsgraphview_t" where
  "redo_layout rm s = emit RefreshViewer (s\<lparr>refresh_mode := rm\<rparr>)"

definition refresh_parent :: "('gm, 'fc) gsgraphview_t \<Rightarrow> ('gm, 'fc) gsgraphview_t" where
  "refresh_parent s = emit (RefreshChooser ''Graph Slick - Panel'') s"

definition clear_selection ::
  "bool \<Rightarrow> ('gm, 'fc) gsgraphview_t \<Rightarrow> ('gm, 'fc) gsgraphview_t" where
  "clear_selection delay_refresh s =
     (let s1 = s\<lparr>selected_nodes := []\<rparr>
      in if \<not> delay_refresh then refresh_view s1 else s1)"

definition clear_highlighting ::
  "bool \<Rightarrow> ('gm, 'fc) gsgraphview_t \<Rightarrow> ('gm, 'fc) gsgraphview_t" where
  "clear_highlighting delay_refresh s =
     (let s1 = s\<lparr>highlighted_nodes := []\<rparr>
      in if \<not> delay_refresh then refresh_view s1 else s1)"

definition toggle_select_node ::
  "int \<Rightarrow> bool \<Rightarrow> ('gm, 'fc) gsgraphview_t \<Rightarrow> ('gm, 'fc) gsgraphview_t" where
  "toggle_select_node node delay_refresh s =
     (let s1 = (case omap_find (selected_nodes s) node of
                  None \<Rightarrow> s\<lparr>selected_nodes := omap_assign node NODE_SEL_COLOR (selected_nodes s)\<rparr>
                | Some c \<Rightarrow> s\<lparr>selected_nodes := omap_erase node (selected_nodes s)\<rparr>)
      in if delay_refresh
         then emit (Msg (STR_GS_MSG @ ''Selected %d\<newline>'') [ArgInt node]) s1
         else refresh_view s1)"

definition ngid_to_sg ::
  "('gm, 'fc, 'mg) host_t \<Rightarrow> ('gm, 'fc) gsgraphview_t \<Rightarrow> int \<Rightarrow> psupergroup_t" where
  "ngid_to_sg h s ngid =
     (case get_ng_from_ngid s (cur_node s) of
        None \<Rightarrow> None
      | Some ng \<Rightarrow>
          (case ng_get_first_node h ng of
             None \<Rightarrow> None
           | Some nd \<Rightarrow>
               (case gm_find_nodeid_loc h (gm s) (nd_nid nd) of
                  None \<Rightarrow> None
                | Some loc \<Rightarrow> loc_sg loc)))"

definition reset_states :: "('gm, 'fc) gsgraphview_t \<Rightarrow> ('gm, 'fc) gsgraphview_t" where
  "reset_states s =
     s\<lparr>node_map := [], ng2id := [], highlighted_nodes := [], selected_nodes := [],
       cur_node := - 1\<rparr>"

definition switch_to_single_view_mode ::
  "('gm, 'fc, 'mg) host_t \<Rightarrow> 'mg \<Rightarrow> ('gm, 'fc) gsgraphview_t
     \<Rightarrow> 'mg \<times> ('gm, 'fc) gsgraphview_t" where
  "switch_to_single_view_mode h mg s =
     (let s1 = emit (Msg (STR_GS_MSG @ ''Switching to single mode view...'') []) s
      in case func_to_mgraph h mg (node_map s1) (func_fc s1) (append_node_id (options s1)) of
           (mg', nm') \<Rightarrow> (mg', emit (Msg ''done\<newline>'' []) (s1\<lparr>node_map := nm'\<rparr>)))"

definition switch_to_combined_view_mode ::
  "('gm, 'fc, 'mg) host_t \<Rightarrow> 'mg \<Rightarrow> ('gm, 'fc) gsgraphview_t
     \<Rightarrow> 'mg \<times> ('gm, 'fc) gsgraphview_t" where
  "switch_to_combined_view_mode h mg s =
     (let s1 = emit (Msg (STR_GS_MSG @ ''Switching to combined mode view...'') []) s
      in case fc_to_combined_mg h (gm s1) (node_map s1) (ng2id s1) mg (func_fc s1) of
           (nm', n2i', mg') \<Rightarrow>
             (mg', emit (Msg ''done\<newline>'' []) (s1\<lparr>node_map := nm', ng2id := n2i'\<rparr>)))"

text \<open>
  \<^verbatim>\<open>gr_callback\<close>, one function for each code. The result is the callback's
  return value, the values written through its output pointers, and the view.
\<close>

definition gr_callback_clicked ::
  "(int \<times> bool) option \<Rightarrow> ('gm, 'fc) gsgraphview_t \<Rightarrow> int \<times> ('gm, 'fc) gsgraphview_t" where
  "gr_callback_clicked item1 s =
     (case item1 of
        None \<Rightarrow> (0, s)
      | Some (node, is_node) \<Rightarrow>
          if in_sel_mode s \<and> is_node
          then (0, toggle_select_node node (manual_refresh_mode (options s)) s)
          else (0, s))"

definition gr_callback_changed_current ::
  "int \<Rightarrow> ('gm, 'fc) gsgraphview_t \<Rightarrow> int \<times> ('gm, 'fc) gsgraphview_t" where
  "gr_callback_changed_current node s = (0, s\<lparr>cur_node := node\<rparr>)"

definition gr_callback_user_refresh ::
  "('gm, 'fc, 'mg) host_t \<Rightarrow> 'mg \<Rightarrow> ('gm, 'fc) gsgraphview_t
     \<Rightarrow> int \<times> 'mg \<times> ('gm, 'fc) gsgraphview_t" where
  "gr_callback_user_refresh h mg s =
     (if node_map s = [] \<or> refresh_mode s \<noteq> gvrfm_soft
      then
        (let mg1 = mg_clear h mg;
             s1 = reset_states s;
             s2 = s1\<lparr>cur_view_mode := refresh_mode s1\<rparr>
         in if refresh_mode s2 = gvrfm_single_mode
            then (1, switch_to_single_view_mode h mg1 s2)
            else if refresh_mode s2 = gvrfm_combined_mode
            then (1, switch_to_combined_view_mode h mg1 s2)
            else (1, mg1, s2))
      else (1, mg, s))"

text \<open>
  \<^verbatim>\<open>grcode_user_text\<close>: \<open>want_bgcolor\<close> is \<^verbatim>\<open>bgcolor != NULL\<close>.
  The second and third components are what was written to \<^verbatim>\<open>*text\<close> and
  \<^verbatim>\<open>*bgcolor\<close>, \<open>None\<close> when nothing was written.
\<close>

definition gr_callback_user_text ::
  "int \<Rightarrow> bool \<Rightarrow> ('gm, 'fc) gsgraphview_t \<Rightarrow> int \<times> string option \<times> bgcolor_t option" where
  "gr_callback_user_text node want_bgcolor s =
     (case get_node s node of
        None \<Rightarrow> (0, None, None)
      | Some gnode \<Rightarrow>
          (1, Some (gn_text gnode),
           if want_bgcolor
           then (case omap_find (selected_nodes s) node of
                   Some c \<Rightarrow> Some c
                 | None \<Rightarrow> omap_find (highlighted_nodes s) node)
           else None))"

text \<open>
  The \<^verbatim>\<open>idm_combine_ngs\<close> branch of \<^verbatim>\<open>on_menu\<close>. The event
  \<open>GmCombineNgl n\<close> records the call of \<^verbatim>\<open>gm->combine_ngl\<close> with a list
  of \<open>n\<close> node groups.
\<close>

definition on_menu_combine_ngs ::
  "('gm, 'fc, 'mg) host_t \<Rightarrow> ('gm, 'fc) gsgraphview_t \<Rightarrow> ('gm, 'fc) gsgraphview_t" where
  "on_menu_combine_ngs h s =
     (if cur_view_mode s \<noteq> gvrfm_combined_mode
      then emit (Msg (STR_GS_MSG @ ''Groupping is only available in combined mode\<newline>'') []) s
      else if length (selected_nodes s) \<le> 1
      then emit (Msg (STR_GS_MSG @ ''Not enough selected nodes\<newline>'') []) s
      else
        (let ngl = map (\<lambda>it. get_ng_from_ngid s (fst it)) (selected_nodes s);
             s1 = emit (GmCombineNgl (length ngl)) (s\<lparr>gm := gm_combine_ngl h ngl (gm s)\<rparr>);
             s2 = refresh_parent s1
         in redo_layout (cur_view_mode s2) s2))"


text \<open>
  The constructor leaves \<^verbatim>\<open>cur_view_mode\<close> unset: its first value is the
  argument \<open>cvm0\<close>. \<^verbatim>\<open>gm\<close> is assigned by \<^verbatim>\<open>show_graph\<close>
  right after the construction.
\<close>

definition gsgraphview_ctor ::
  "'fc \<Rightarrow> gsoptions_t \<Rightarrow> 'gm \<Rightarrow> gvrefresh_modes_e \<Rightarrow> ('gm, 'fc) gsgraphview_t" where
  "gsgraphview_ctor fc opts g cvm0 =
     \<lparr>cur_node = - 1, gv = False, form = False, gm = g, options = opts,
      node_map = [], ng2id = [], func_fc = fc,
      refresh_mode = start_view_mode opts, cur_view_mode = cvm0,
      parent_ref = False, in_sel_mode = False,
      highlighted_nodes = [], selected_nodes = [], out = []\<rparr>"

definition set_sel_mode ::
  "bool \<Rightarrow> ('gm, 'fc) gsgraphview_t \<Rightarrow> ('gm, 'fc) gsgraphview_t" where
  "set_sel_mode sel_mode s =
     (let label = (if sel_mode then ''End selection mode'' else ''Start selection mode'')
      in emit (Msg (STR_GS_MSG @ ''Trigger again to '%s'\<newline>'') [ArgStr label])
           (s\<lparr>in_sel_mode := sel_mode\<rparr>))"

definition init :: "('gm, 'fc) gsgraphview_t \<Rightarrow> ('gm, 'fc) gsgraphview_t" where
  "init s = (let s1 = s\<lparr>gv := True, form := True\<rparr> in set_sel_mode (in_sel_mode s1) s1)"

text \<open>
  \<^verbatim>\<open>show_graph\<close> tries twice to create the hosting form. It returns the events
  of its host calls and the new view, \<open>None\<close> for \<^verbatim>\<open>NULL\<close>.
\<close>

fun show_graph_loop ::
  "('gm, 'fc, 'mg) host_t \<Rightarrow> 'fc \<Rightarrow> 'gm \<Rightarrow> gsoptions_t \<Rightarrow> gvrefresh_modes_e \<Rightarrow> nat list
     \<Rightarrow> gs_event list \<times> ('gm, 'fc) gsgraphview_t option" where
  "show_graph_loop h fc g opts cvm0 [] = ([], None)"
| "show_graph_loop h fc g opts cvm0 (i # rest) =
     (if create_tform h i
      then
        (let gsgv = gsgraphview_ctor fc opts g cvm0
         in ([CreateTForm True, OpenTForm],
             Some (if create_graph_viewer h then init gsgv else gsgv)))
      else
        (case show_graph_loop h fc g opts cvm0 rest of
           (evs, r) \<Rightarrow> (CreateTForm False # CloseTForm # evs, r)))"

definition show_graph ::
  "('gm, 'fc, 'mg) host_t \<Rightarrow> 'fc \<Rightarrow> 'gm \<Rightarrow> gsoptions_t \<Rightarrow> gvrefresh_modes_e
     \<Rightarrow> gs_event list \<times> ('gm, 'fc) gsgraphview_t option" where
  "show_graph h fc g opts cvm0 = show_graph_loop h fc g opts cvm0 [0, 1]"

section \<open>The chooser: \<^verbatim>\<open>gschooser_t\<close>\<close>

record 'gm gschooser_line_t =
  cl_type :: gsch_line_type_t
  cl_gm :: "'gm option"
  cl_sg :: psupergroup_t
  cl_ng :: pnodegroup_t
  cl_ngl :: "nodegroup_t list option"

text \<open>
  The chooser owns the group manager through the pointer \<^verbatim>\<open>gm\<close>. The pointer
  is \<^verbatim>\<open>NULL\<close>, or refers to a live object, or still holds the address of an
  object that \<^verbatim>\<open>delete\<close> has destroyed.
\<close>

datatype 'gm gm_ptr = gm_null | gm_live 'gm | gm_dangling

record ('gm, 'fc) gschooser_t =
  ch_nodes :: "'gm gschooser_line_t list"
  gsgv :: "('gm, 'fc) gsgraphview_t option"
  ch_gm :: "'gm gm_ptr"
  last_loaded_file :: string
  ch_func_fc :: 'fc
  ch_options :: gsoptions_t
  ch_out :: "gs_event list"

definition ch_emit :: "gs_event list \<Rightarrow> ('gm, 'fc) gschooser_t \<Rightarrow> ('gm, 'fc) gschooser_t" where
  "ch_emit es s = s\<lparr>ch_out := ch_out s @ es\<rparr>"

text \<open>The event of \<^verbatim>\<open>delete gm\<close>: none for \<^verbatim>\<open>NULL\<close>.\<close>

definition delete_gm :: "'gm gm_ptr \<Rightarrow> gs_event list" where
  "delete_gm p = (if p = gm_null then [] else [GmDelete])"

definition load_options :: "gsoptions_t \<Rightarrow> gsoptions_t" where
  "load_options o1 =
     o1\<lparr>manual_refresh_mode := True, append_node_id := False,
        highlight_syntethic_nodes := False, show_options_dialog_next_time := True,
        enlarge_group_name := True, start_view_mode := gvrfm_combined_mode, debug := True\<rparr>"

definition new_line :: "gsch_line_type_t \<Rightarrow> 'gm gschooser_line_t" where
  "new_line t = \<lparr>cl_type = t, cl_gm = None, cl_sg = None, cl_ng = None, cl_ngl = None\<rparr>"

definition sg_lines :: "'gm \<Rightarrow> supergroup_t \<Rightarrow> 'gm gschooser_line_t list" where
  "sg_lines g sg =
     (new_line chlt_sg)\<lparr>cl_gm := Some g, cl_sg := Some sg, cl_ngl := Some (sg_groups sg)\<rparr>
     # map (\<lambda>ng. (new_line chlt_ng)\<lparr>cl_gm := Some g, cl_sg := Some sg,
                                      cl_ngl := Some (sg_groups sg), cl_ng := Some ng\<rparr>)
           (sg_groups sg)"

text \<open>\<open>g\<close> is the object \<^verbatim>\<open>gm\<close> points to.\<close>

definition populate_chooser_lines ::
  "('gm, 'fc, 'mg) host_t \<Rightarrow> 'gm \<Rightarrow> ('gm, 'fc) gschooser_t \<Rightarrow> ('gm, 'fc) gschooser_t" where
  "populate_chooser_lines h g s =
     s\<lparr>ch_nodes := (new_line chlt_gm)\<lparr>cl_gm := Some g\<rparr>
                   # concat (map (sg_lines g) (gm_get_path_sgl h g))\<rparr>"

text \<open>
  \<^verbatim>\<open>load_file\<close>. It starts with \<^verbatim>\<open>delete gm\<close>, which is undefined
  when the pointer dangles (the result is \<open>None\<close> then) and does nothing when the
  pointer is \<^verbatim>\<open>NULL\<close>. Otherwise the result is the returned flag and the
  chooser. The events \<open>GmDelete\<close>, \<open>GmNew\<close>, \<open>GmParse\<close>,
  \<open>SanitizeGroupman\<close> and \<open>GmInitializeLookups\<close> record the calls on the
  group manager, in the order the function makes them; \<open>GmParse f c r\<close> is
  \<^verbatim>\<open>gm->parse(f, c)\<close> returning \<open>r\<close>.
\<close>

definition load_file ::
  "('gm, 'fc, 'mg) host_t \<Rightarrow> string \<Rightarrow> ('gm, 'fc) gschooser_t
     \<Rightarrow> (bool \<times> ('gm, 'fc) gschooser_t) option" where
  "load_file h filename s =
     (if ch_gm s = gm_dangling then None
      else
        (case gm_parse h filename False (gm_new h) of
           (parsed, g1) \<Rightarrow>
             (let s1 = ch_emit (delete_gm (ch_gm s) @ [GmNew, GmParse filename False parsed])
                         (s\<lparr>ch_gm := gm_live g1\<rparr>)
              in if \<not> parsed
                 then Some (False,
                   (ch_emit [Msg (STR_GS_MSG @ ''Error: failed to parse group file '%s'\<newline>'')
                               [ArgStr filename], GmDelete] s1)\<lparr>ch_gm := gm_dangling\<rparr>)
                 else
                   (case gm_get_first_nd h g1 of
                      None \<Rightarrow> Some (False,
                        ch_emit [Msg (STR_GS_MSG @ ''Invalid input file! No addresses defined\<newline>'') []] s1)
                    | Some nd \<Rightarrow>
                        (case get_func h (nd_start nd) of
                           None \<Rightarrow> Some (False,
                             ch_emit [Msg ''Input file does not related to a defined function!\<newline>'' []] s1)
                         | Some startEA \<Rightarrow>
                             (case get_func_flowchart h startEA (ch_func_fc s1) of
                                (built, fc1) \<Rightarrow>
                                  (let s2 = s1\<lparr>ch_func_fc := fc1\<rparr>
                                   in if \<not> built
                                      then Some (False,
                                        ch_emit [Msg ''Could not build function flow chart at %a\<newline>''
                                                   [ArgEa startEA]] s2)
                                      else
                                        (case sanitize_groupman h g1 fc1 of
                                           (sane, g2) \<Rightarrow>
                                             (let s3 = ch_emit [SanitizeGroupman sane]
                                                         (s2\<lparr>ch_gm := gm_live g2\<rparr>);
                                                  g3 = (if sane then gm_initialize_lookups h g2 else g2);
                                                  s4 = (if sane
                                                        then ch_emit [GmInitializeLookups]
                                                               (s3\<lparr>ch_gm := gm_live g3\<rparr>)
                                                        else s3)
                                              in Some (True, populate_chooser_lines h g3 s4))))))))))"

text \<open>
  \<^verbatim>\<open>load_file_show_graph\<close>. \<^verbatim>\<open>show_dialog\<close> does nothing.
  \<open>cvm0\<close> is the unset \<^verbatim>\<open>cur_view_mode\<close> of the new view.
\<close>

definition load_file_show_graph ::
  "('gm, 'fc, 'mg) host_t \<Rightarrow> gvrefresh_modes_e \<Rightarrow> string \<Rightarrow> ('gm, 'fc) gschooser_t
     \<Rightarrow> (bool \<times> ('gm, 'fc) gschooser_t) option" where
  "load_file_show_graph h cvm0 filename s =
     (case load_file h filename (s\<lparr>ch_options := load_options (ch_options s)\<rparr>) of
        None \<Rightarrow> None
      | Some (loaded, s1) \<Rightarrow>
          if \<not> loaded then Some (False, s1)
          else
            (case ch_gm s1 of
               gm_live g \<Rightarrow>
                 (case show_graph h (ch_func_fc s1) g (ch_options s1) cvm0 of
                    (evs, r) \<Rightarrow>
                      (let s2 = ch_emit evs (s1\<lparr>gsgv := r\<rparr>)
                       in case r of
                            None \<Rightarrow> Some (False, s2)
                          | Some v \<Rightarrow>
                              Some (True, s2\<lparr>gsgv := Some (v\<lparr>parent_ref := True\<rparr>),
                                             last_loaded_file := filename\<rparr>)))
             | _ \<Rightarrow> None))"

definition reload_input_file ::
  "('gm, 'fc, 'mg) host_t \<Rightarrow> gvrefresh_modes_e \<Rightarrow> ('gm, 'fc) gschooser_t
     \<Rightarrow> (bool \<times> ('gm, 'fc) gschooser_t) option" where
  "reload_input_file h cvm0 s =
     (if last_loaded_file s \<noteq> [] then load_file_show_graph h cvm0 (last_loaded_file s) s
      else Some (False, s))"

text \<open>The chooser as its constructor leaves it, with the fields it does not set given.\<close>

definition gschooser_ctor :: "'fc \<Rightarrow> gsoptions_t \<Rightarrow> ('gm, 'fc) gschooser_t" where
  "gschooser_ctor fc opts =
     \<lparr>ch_nodes = [], gsgv = None, ch_gm = gm_null, last_loaded_file = [],
      ch_func_fc = fc, ch_options = opts, ch_out = []\<rparr>"


section \<open>Reading the event log\<close>

text \<open>The events a member function of the view appended to the log.\<close>

definition new_events ::
  "('gm, 'fc) gsgraphview_t \<Rightarrow> ('gm, 'fc) gsgraphview_t \<Rightarrow> gs_event list" where
  "new_events s s' = drop (length (out s)) (out s')"

section \<open>An example host and example objects\<close>

text \<open>
  A small host on which the functions above can be run: a group manager is its list of
  super groups, a flow chart is its number of blocks, a graph is its number of nodes.
  Parsing depends on the file name only; sanitizing fails exactly on a flow chart without
  blocks.
\<close>

definition ex_nd :: nodedef_t where
  "ex_nd = \<lparr>nd_nid = 0, nd_start = 0x401000, nd_end = 0x401010\<rparr>"

definition ex_sg :: supergroup_t where
  "ex_sg = \<lparr>sg_id = ''path1'', sg_name = ''first path'', sg_is_synthetic = False,
            sg_groups = [[ex_nd]]\<rparr>"

definition ex_options :: gsoptions_t where
  "ex_options =
     \<lparr>append_node_id = False, manual_refresh_mode = True,
      highlight_syntethic_nodes = False, show_options_dialog_next_time = True,
      enlarge_group_name = True, debug = True, start_view_mode = gvrfm_combined_mode\<rparr>"

definition ex_host :: "nat \<Rightarrow> (supergroup_t list, nat, nat) host_t" where
  "ex_host nblocks =
     \<lparr>gm_new = [],
      gm_parse = (\<lambda>fn init_cache g.
         if fn = ''bad.bbgroup'' then (False, g)
         else if fn = ''empty.bbgroup'' then (True, [])
         else (True, [ex_sg])),
      gm_get_first_nd = (\<lambda>g. case concat (concat (map sg_groups g)) of
                              [] \<Rightarrow> None | nd # _ \<Rightarrow> Some nd),
      gm_initialize_lookups = (\<lambda>g. g),
      gm_get_path_sgl = (\<lambda>g. g),
      gm_find_nodeid_loc = (\<lambda>g nid.
         case filter (\<lambda>sg. nid \<in> set (map nd_nid (concat (sg_groups sg)))) g of
           [] \<Rightarrow> None | sg # _ \<Rightarrow> Some \<lparr>loc_sg = Some sg\<rparr>),
      gm_combine_ngl = (\<lambda>ngl g. g),
      ng_get_first_node = (\<lambda>ng. case ng of [] \<Rightarrow> None | nd # _ \<Rightarrow> Some nd),
      sanitize_groupman = (\<lambda>g fc. (fc \<noteq> 0, g)),
      get_func = (\<lambda>ea. Some ea),
      get_func_flowchart = (\<lambda>ea fc. (True, nblocks)),
      func_to_mgraph = (\<lambda>mg nm fc app.
         (2, nm @ [(0, \<lparr>gn_text = ''block 0'', gn_hint = []\<rparr>),
                   (1, \<lparr>gn_text = ''block 1'', gn_hint = []\<rparr>)])),
      fc_to_combined_mg = (\<lambda>g nm n2i mg fc.
         (nm @ [(0, \<lparr>gn_text = ''path1'', gn_hint = []\<rparr>)], n2i @ [(Some [ex_nd], 0)], 1)),
      mg_clear = (\<lambda>mg. 0),
      create_tform = (\<lambda>n. True),
      create_graph_viewer = True\<rparr>"

definition ex_chooser :: "(supergroup_t list, nat) gschooser_t" where
  "ex_chooser = gschooser_ctor 0 ex_options"

text \<open>
  A view in combined mode that shows one group as node 0; the node is selected and
  highlighted, and the highlighted set has an entry for node 3 too.
\<close>

definition ex_view :: "(supergroup_t list, nat) gsgraphview_t" where
  "ex_view =
     (gsgraphview_ctor 4 ex_options [ex_sg] gvrfm_combined_mode)
       \<lparr>node_map := [(0, \<lparr>gn_text = ''path1'', gn_hint = []\<rparr>)],
        ng2id := [(Some [ex_nd], 0)],
        cur_node := 0,
        selected_nodes := [(0, NODE_SEL_COLOR)],
        highlighted_nodes := [(0, 0x00CCFF), (3, 0x00CCFF)]\<rparr>"

text \<open>
  The same view with three entries in the id map: a second group shown as node 1, whose
  first node the group manager does not know, the group of node 0, and a
  \<^verbatim>\<open>NULL\<close> key for node 2. The current node is node 0.
\<close>

definition ex_nd1 :: nodedef_t where
  "ex_nd1 = \<lparr>nd_nid = 1, nd_start = 0x401010, nd_end = 0x401020\<rparr>"

definition ex_view2 :: "(supergroup_t list, nat) gsgraphview_t" where
  "ex_view2 = ex_view\<lparr>ng2id := [(Some [ex_nd1], 1), (Some [ex_nd], 0), (None, 2)]\<rparr>"

section \<open>Properties of the ordered maps\<close>

lemma omap_find_assign_same: "omap_find (omap_assign k v m) k = Some v"
  by (induction m) auto

lemma omap_find_assign_other:
  "k' \<noteq> k \<Longrightarrow> omap_find (omap_assign k v m) k' = omap_find m k'"
  by (induction m) auto

lemma omap_erase_assign: "omap_find m k = None \<Longrightarrow> omap_erase k (omap_assign k v m) = m"
  by (induction m) (auto split: if_splits)

lemma omap_find_erase_other:
  "k' \<noteq> k \<Longrightarrow> omap_find (omap_erase k m) k' = omap_find m k'"
  by (induction m) auto

section \<open>Selection\<close>

lemma selected_toggle_absent:
  "omap_find (selected_nodes s) n = None \<Longrightarrow>
   selected_nodes (toggle_select_node n d s) = omap_assign n NODE_SEL_COLOR (selected_nodes s)"
  by (simp add: toggle_select_node_def emit_def refresh_view_def Let_def)

lemma selected_toggle_present:
  "omap_find (selected_nodes s) n = Some c \<Longrightarrow>
   selected_nodes (toggle_select_node n d s) = omap_erase n (selected_nodes s)"
  by (simp add: toggle_select_node_def emit_def refresh_view_def Let_def)

lemma toggle_touches_selection_only:
  "highlighted_nodes (toggle_select_node n d s) = highlighted_nodes s
 \<and> node_map (toggle_select_node n d s) = node_map s
 \<and> ng2id (toggle_select_node n d s) = ng2id s
 \<and> cur_node (toggle_select_node n d s) = cur_node s
 \<and> gm (toggle_select_node n d s) = gm s"
  by (simp add: toggle_select_node_def emit_def refresh_view_def Let_def split: option.splits)

text \<open>
  Claim C9. When node \<open>n\<close> is not selected, \<^verbatim>\<open>toggle_select_node\<close> enters it
  in the selected set with the colour \<^verbatim>\<open>NODE_SEL_COLOR\<close>, a second call removes
  it again and the selected set is what it was before the first call; the entry of every
  other node is the same after each of the two calls. This holds for either value of
  \<^verbatim>\<open>delay_refresh\<close> in each call.
\<close>

theorem toggle_select_node_twice:
  assumes "omap_find (selected_nodes s) n = None"
  shows "selected_nodes (toggle_select_node n d1 s)
           = omap_assign n NODE_SEL_COLOR (selected_nodes s)
       \<and> omap_find (selected_nodes (toggle_select_node n d1 s)) n = Some NODE_SEL_COLOR
       \<and> selected_nodes (toggle_select_node n d2 (toggle_select_node n d1 s)) = selected_nodes s
       \<and> (\<forall>m. m \<noteq> n \<longrightarrow>
            omap_find (selected_nodes (toggle_select_node n d1 s)) m
              = omap_find (selected_nodes s) m
          \<and> omap_find (selected_nodes (toggle_select_node n d2 (toggle_select_node n d1 s))) m
              = omap_find (selected_nodes s) m)"
proof -
  let ?s1 = "toggle_select_node n d1 s"
  have a: "selected_nodes ?s1 = omap_assign n NODE_SEL_COLOR (selected_nodes s)"
    using assms by (rule selected_toggle_absent)
  have b: "omap_find (selected_nodes ?s1) n = Some NODE_SEL_COLOR"
    by (simp add: a omap_find_assign_same)
  have c: "selected_nodes (toggle_select_node n d2 ?s1) = selected_nodes s"
    using selected_toggle_present [OF b, of d2] assms by (simp add: a omap_erase_assign)
  show ?thesis
    using a b c by (simp add: omap_find_assign_other)
qed

theorem toggle_select_node_twice_witness:
  "omap_find (selected_nodes ex_view) 2 = None
 \<and> selected_nodes (toggle_select_node 2 True ex_view)
     = [(0, NODE_SEL_COLOR), (2, NODE_SEL_COLOR)]
 \<and> selected_nodes (toggle_select_node 2 False (toggle_select_node 2 True ex_view))
     = [(0, NODE_SEL_COLOR)]"
proof -
  have h: "omap_find (selected_nodes ex_view) 2 = None"
    by (simp add: ex_view_def gsgraphview_ctor_def)
  have sel: "selected_nodes ex_view = [(0, NODE_SEL_COLOR)]"
    by (simp add: ex_view_def gsgraphview_ctor_def)
  from toggle_select_node_twice [OF h, of True False] show ?thesis
    using h by (simp add: sel)
qed

text \<open>
  Claim C8, as the code has it. A node id without node data (\<^verbatim>\<open>get_node\<close>
  returns \<^verbatim>\<open>NULL\<close>) makes the callback return 0 and write neither text nor
  colour, whether or not the id is selected or highlighted. When the renderer asks for the
  background colour of a node id that has node data, selection takes priority over
  highlighting: the colour written is the id's entry of the selected set when it has one;
  otherwise its entry of the highlighted set when it has one; otherwise no colour is
  written.
\<close>

theorem user_text_selection_priority:
  "(get_node s node = None \<longrightarrow> gr_callback_user_text node True s = (0, None, None))
 \<and> (\<forall>gnode. get_node s node = Some gnode \<longrightarrow>
       (\<forall>c. omap_find (selected_nodes s) node = Some c \<longrightarrow>
          gr_callback_user_text node True s = (1, Some (gn_text gnode), Some c))
     \<and> (omap_find (selected_nodes s) node = None \<longrightarrow>
          (\<forall>c. omap_find (highlighted_nodes s) node = Some c \<longrightarrow>
             gr_callback_user_text node True s = (1, Some (gn_text gnode), Some c))
        \<and> (omap_find (highlighted_nodes s) node = None \<longrightarrow>
             gr_callback_user_text node True s = (1, Some (gn_text gnode), None))))"
  by (simp add: gr_callback_user_text_def)

theorem user_text_selection_priority_witness:
  "get_node ex_view 0 = Some \<lparr>gn_text = ''path1'', gn_hint = []\<rparr>
 \<and> omap_find (selected_nodes ex_view) 0 = Some NODE_SEL_COLOR
 \<and> omap_find (highlighted_nodes ex_view) 0 = Some 0x00CCFF
 \<and> gr_callback_user_text 0 True ex_view = (1, Some ''path1'', Some NODE_SEL_COLOR)
 \<and> get_node ex_view 3 = None
 \<and> omap_find (highlighted_nodes ex_view) 3 = Some 0x00CCFF
 \<and> gr_callback_user_text 3 True ex_view = (0, None, None)"
proof -
  have h: "get_node ex_view 0 = Some \<lparr>gn_text = ''path1'', gn_hint = []\<rparr>"
    by (simp add: get_node_def ex_view_def gsgraphview_ctor_def)
  have sel: "omap_find (selected_nodes ex_view) 0 = Some NODE_SEL_COLOR"
    by (simp add: ex_view_def gsgraphview_ctor_def)
  have hl: "omap_find (highlighted_nodes ex_view) 0 = Some 0x00CCFF"
    by (simp add: ex_view_def gsgraphview_ctor_def)
  have n3: "get_node ex_view 3 = None"
    by (simp add: get_node_def ex_view_def gsgraphview_ctor_def)
  have hl3: "omap_find (highlighted_nodes ex_view) 3 = Some 0x00CCFF"
    by (simp add: ex_view_def gsgraphview_ctor_def)
  from user_text_selection_priority [of ex_view 0, THEN conjunct2] h sel
  have a: "gr_callback_user_text 0 True ex_view = (1, Some ''path1'', Some NODE_SEL_COLOR)"
    by simp
  from user_text_selection_priority [of ex_view 3, THEN conjunct1] n3
  have b: "gr_callback_user_text 3 True ex_view = (0, None, None)"
    by simp
  from h sel hl a n3 hl3 b show ?thesis by simp
qed

text \<open>
  The claim as it was written, for every node id, fails: after node 7, which has no node
  data in the example view, is selected, the callback writes no colour for it.
\<close>

theorem user_text_unknown_node_counterexample:
  "omap_find (selected_nodes (toggle_select_node 7 True ex_view)) 7 = Some NODE_SEL_COLOR
 \<and> get_node (toggle_select_node 7 True ex_view) 7 = None
 \<and> gr_callback_user_text 7 True (toggle_select_node 7 True ex_view) = (0, None, None)"
  by (simp add: gr_callback_user_text_def get_node_def toggle_select_node_def emit_def
        ex_view_def gsgraphview_ctor_def)

section \<open>Super group of the current node\<close>

text \<open>
  The loop of \<^verbatim>\<open>get_ng_from_ngid\<close> returns the key of the first entry, in
  iteration order, whose id is the one asked for, and \<^verbatim>\<open>NULL\<close> when there is
  none.
\<close>

lemma get_ng_from_ngid_scan_none:
  "\<forall>it \<in> set m. snd it \<noteq> k \<Longrightarrow> get_ng_from_ngid_scan m k = None"
  by (induction m) auto

lemma get_ng_from_ngid_scan_first:
  "\<forall>it \<in> set pre. snd it \<noteq> k \<Longrightarrow>
   get_ng_from_ngid_scan (pre @ (png, k) # post) k = png"
  by (induction pre) auto

lemma get_ng_from_ngid_scan_found:
  "get_ng_from_ngid_scan m k = Some ng \<Longrightarrow> (Some ng, k) \<in> set m"
  by (induction m) (auto split: if_splits)

text \<open>
  Claim C10. \<^verbatim>\<open>ngid_to_sg\<close> does not read its argument: any two arguments give
  the same result in the same view. The node group it starts from is the one mapped from
  \<^verbatim>\<open>cur_node\<close>: the key of the first entry of \<^verbatim>\<open>ng2id\<close> whose id is
  \<^verbatim>\<open>cur_node\<close>. The result is \<^verbatim>\<open>NULL\<close> when no entry has that id,
  when the key of that entry is \<^verbatim>\<open>NULL\<close>, when the group has no first node, or
  when the first node has no location; otherwise it is the super group of the location of
  the group's first node.
\<close>

theorem ngid_to_sg_ignores_argument:
  "ngid_to_sg h s ngid1 = ngid_to_sg h s ngid2
 \<and> ((\<forall>it \<in> set (ng2id s). snd it \<noteq> cur_node s) \<longrightarrow> ngid_to_sg h s ngid1 = None)
 \<and> (\<forall>pre png post.
       ng2id s = pre @ (png, cur_node s) # post \<and> (\<forall>it \<in> set pre. snd it \<noteq> cur_node s) \<longrightarrow>
         get_ng_from_ngid s (cur_node s) = png
       \<and> (png = None \<longrightarrow> ngid_to_sg h s ngid1 = None)
       \<and> (\<forall>ng. png = Some ng \<longrightarrow>
             (ng_get_first_node h ng = None \<longrightarrow> ngid_to_sg h s ngid1 = None)
           \<and> (\<forall>nd. ng_get_first_node h ng = Some nd \<longrightarrow>
                 (gm_find_nodeid_loc h (gm s) (nd_nid nd) = None \<longrightarrow>
                    ngid_to_sg h s ngid1 = None)
               \<and> (\<forall>loc. gm_find_nodeid_loc h (gm s) (nd_nid nd) = Some loc \<longrightarrow>
                     ngid_to_sg h s ngid1 = loc_sg loc))))"
proof -
  have indep: "ngid_to_sg h s ngid1 = ngid_to_sg h s ngid2"
    by (simp add: ngid_to_sg_def)
  have absent: "(\<forall>it \<in> set (ng2id s). snd it \<noteq> cur_node s) \<longrightarrow> ngid_to_sg h s ngid1 = None"
    by (simp add: ngid_to_sg_def get_ng_from_ngid_def get_ng_from_ngid_scan_none)
  have present: "\<forall>pre png post.
       ng2id s = pre @ (png, cur_node s) # post \<and> (\<forall>it \<in> set pre. snd it \<noteq> cur_node s) \<longrightarrow>
         get_ng_from_ngid s (cur_node s) = png
       \<and> (png = None \<longrightarrow> ngid_to_sg h s ngid1 = None)
       \<and> (\<forall>ng. png = Some ng \<longrightarrow>
             (ng_get_first_node h ng = None \<longrightarrow> ngid_to_sg h s ngid1 = None)
           \<and> (\<forall>nd. ng_get_first_node h ng = Some nd \<longrightarrow>
                 (gm_find_nodeid_loc h (gm s) (nd_nid nd) = None \<longrightarrow>
                    ngid_to_sg h s ngid1 = None)
               \<and> (\<forall>loc. gm_find_nodeid_loc h (gm s) (nd_nid nd) = Some loc \<longrightarrow>
                     ngid_to_sg h s ngid1 = loc_sg loc)))"
  proof (intro allI impI)
    fix pre png post
    assume a: "ng2id s = pre @ (png, cur_node s) # post
                 \<and> (\<forall>it \<in> set pre. snd it \<noteq> cur_node s)"
    then have f: "get_ng_from_ngid s (cur_node s) = png"
      by (simp add: get_ng_from_ngid_def get_ng_from_ngid_scan_first)
    then show "get_ng_from_ngid s (cur_node s) = png
       \<and> (png = None \<longrightarrow> ngid_to_sg h s ngid1 = None)
       \<and> (\<forall>ng. png = Some ng \<longrightarrow>
             (ng_get_first_node h ng = None \<longrightarrow> ngid_to_sg h s ngid1 = None)
           \<and> (\<forall>nd. ng_get_first_node h ng = Some nd \<longrightarrow>
                 (gm_find_nodeid_loc h (gm s) (nd_nid nd) = None \<longrightarrow>
                    ngid_to_sg h s ngid1 = None)
               \<and> (\<forall>loc. gm_find_nodeid_loc h (gm s) (nd_nid nd) = Some loc \<longrightarrow>
                     ngid_to_sg h s ngid1 = loc_sg loc)))"
      by (simp add: ngid_to_sg_def)
  qed
  from indep absent present show ?thesis by blast
qed

theorem ngid_to_sg_ignores_argument_witness:
  "ng2id ex_view2 = [(Some [ex_nd1], 1)] @ (Some [ex_nd], cur_node ex_view2) # [(None, 2)]
 \<and> get_ng_from_ngid ex_view2 (cur_node ex_view2) = Some [ex_nd]
 \<and> get_ng_from_ngid ex_view2 1 = Some [ex_nd1]
 \<and> gm_find_nodeid_loc (ex_host 4) (gm ex_view2) (nd_nid ex_nd1) = None
 \<and> ngid_to_sg (ex_host 4) ex_view2 1 = Some ex_sg
 \<and> ngid_to_sg (ex_host 4) ex_view2 7 = Some ex_sg"
proof -
  have d: "ng2id ex_view2
             = [(Some [ex_nd1], 1)] @ (Some [ex_nd], cur_node ex_view2) # [(None, 2)]"
    by (simp add: ex_view2_def ex_view_def gsgraphview_ctor_def)
  have p: "\<forall>it \<in> set [(Some [ex_nd1], 1::int)]. snd it \<noteq> cur_node ex_view2"
    by (simp add: ex_view2_def ex_view_def gsgraphview_ctor_def)
  have o: "get_ng_from_ngid ex_view2 1 = Some [ex_nd1]"
    by (simp add: get_ng_from_ngid_def ex_view2_def ex_view_def gsgraphview_ctor_def)
  have c: "ng_get_first_node (ex_host 4) [ex_nd] = Some ex_nd"
    by (simp add: ex_host_def)
  have l: "gm_find_nodeid_loc (ex_host 4) (gm ex_view2) (nd_nid ex_nd)
             = Some \<lparr>loc_sg = Some ex_sg\<rparr>"
    by (simp add: ex_host_def ex_view2_def ex_view_def gsgraphview_ctor_def ex_sg_def
          ex_nd_def)
  have l1: "gm_find_nodeid_loc (ex_host 4) (gm ex_view2) (nd_nid ex_nd1) = None"
    by (simp add: ex_host_def ex_view2_def ex_view_def gsgraphview_ctor_def ex_sg_def
          ex_nd_def ex_nd1_def)
  note t = ngid_to_sg_ignores_argument [of "ex_host 4" ex_view2 1 7]
  from t have "ng2id ex_view2
                 = [(Some [ex_nd1], 1)] @ (Some [ex_nd], cur_node ex_view2) # [(None, 2)]
               \<and> (\<forall>it \<in> set [(Some [ex_nd1], 1::int)]. snd it \<noteq> cur_node ex_view2) \<longrightarrow>
         get_ng_from_ngid ex_view2 (cur_node ex_view2) = Some [ex_nd]
       \<and> (\<forall>nd. ng_get_first_node (ex_host 4) [ex_nd] = Some nd \<longrightarrow>
             (\<forall>loc. gm_find_nodeid_loc (ex_host 4) (gm ex_view2) (nd_nid nd) = Some loc \<longrightarrow>
                ngid_to_sg (ex_host 4) ex_view2 1 = loc_sg loc))"
    by blast
  with d p c l have f: "get_ng_from_ngid ex_view2 (cur_node ex_view2) = Some [ex_nd]"
    and e: "ngid_to_sg (ex_host 4) ex_view2 1 = Some ex_sg"
    by auto
  from t have "ngid_to_sg (ex_host 4) ex_view2 1 = ngid_to_sg (ex_host 4) ex_view2 7"
    by blast
  with e have g: "ngid_to_sg (ex_host 4) ex_view2 7 = Some ex_sg"
    by simp
  from d f o l1 e g show ?thesis by blast
qed

section \<open>Rebuilding the graph\<close>

lemma reset_states_forgets:
  "reset_states (s\<lparr>node_map := nm, ng2id := n2i, highlighted_nodes := hl,
                   selected_nodes := sel, cur_node := cn\<rparr>) = reset_states s"
  by (simp add: reset_states_def)

lemma user_refresh_soft_keeps_view:
  "refresh_mode s = gvrfm_soft \<Longrightarrow> node_map s \<noteq> [] \<Longrightarrow>
   gr_callback_user_refresh h mg s = (1, mg, s)"
  by (simp add: gr_callback_user_refresh_def)

text \<open>
  Claim C1. A refresh whose requested mode is the single or the combined mode (any mode
  but the soft one) returns 1 and leaves a view in which the highlighted set and the
  selected set are empty and the current node is -1; the view mode is the requested one.
  The graph builder of the requested mode is called on the cleared graph with an empty
  node map (and an empty node-group-to-id map), and the node map and the id map of the
  new view are what that call returned. So the outcome is the same whatever the node map,
  the id map, the two colour sets and the current node held before the refresh.
\<close>

theorem view_mode_transition_resets:
  assumes "refresh_mode s \<noteq> gvrfm_soft"
  shows "(case gr_callback_user_refresh h mg s of
            (r, mg', s') \<Rightarrow>
              r = 1
            \<and> highlighted_nodes s' = [] \<and> selected_nodes s' = [] \<and> cur_node s' = - 1
            \<and> cur_view_mode s' = refresh_mode s
            \<and> (refresh_mode s = gvrfm_single_mode \<longrightarrow>
                 (mg', node_map s') = func_to_mgraph h (mg_clear h mg) [] (func_fc s)
                                         (append_node_id (options s))
                 \<and> ng2id s' = [])
            \<and> (refresh_mode s = gvrfm_combined_mode \<longrightarrow>
                 (node_map s', ng2id s', mg')
                   = fc_to_combined_mg h (gm s) [] [] (mg_clear h mg) (func_fc s)))
       \<and> gr_callback_user_refresh h mg
           (s\<lparr>node_map := nm, ng2id := n2i, highlighted_nodes := hl,
              selected_nodes := sel, cur_node := cn\<rparr>)
         = gr_callback_user_refresh h mg s"
proof -
  have m: "refresh_mode s = gvrfm_single_mode \<or> refresh_mode s = gvrfm_combined_mode"
    using assms by (cases "refresh_mode s") simp_all
  have built: "case gr_callback_user_refresh h mg s of
            (r, mg', s') \<Rightarrow>
              r = 1
            \<and> highlighted_nodes s' = [] \<and> selected_nodes s' = [] \<and> cur_node s' = - 1
            \<and> cur_view_mode s' = refresh_mode s
            \<and> (refresh_mode s = gvrfm_single_mode \<longrightarrow>
                 (mg', node_map s') = func_to_mgraph h (mg_clear h mg) [] (func_fc s)
                                         (append_node_id (options s))
                 \<and> ng2id s' = [])
            \<and> (refresh_mode s = gvrfm_combined_mode \<longrightarrow>
                 (node_map s', ng2id s', mg')
                   = fc_to_combined_mg h (gm s) [] [] (mg_clear h mg) (func_fc s))"
    using m
    by (auto simp: gr_callback_user_refresh_def Let_def reset_states_def
          switch_to_single_view_mode_def switch_to_combined_view_mode_def emit_def
          split: prod.splits)
  have forgets: "gr_callback_user_refresh h mg
           (s\<lparr>node_map := nm, ng2id := n2i, highlighted_nodes := hl,
              selected_nodes := sel, cur_node := cn\<rparr>)
         = gr_callback_user_refresh h mg s"
    using assms by (simp add: gr_callback_user_refresh_def reset_states_forgets Let_def)
  show ?thesis using built forgets by simp
qed

theorem view_mode_transition_resets_witness:
  "refresh_mode (redo_layout gvrfm_single_mode ex_view) \<noteq> gvrfm_soft
 \<and> highlighted_nodes (redo_layout gvrfm_single_mode ex_view) = [(0, 0x00CCFF), (3, 0x00CCFF)]
 \<and> selected_nodes (redo_layout gvrfm_single_mode ex_view) = [(0, NODE_SEL_COLOR)]
 \<and> (case gr_callback_user_refresh (ex_host 4) 1 (redo_layout gvrfm_single_mode ex_view) of
       (r, mg', s') \<Rightarrow>
         r = 1 \<and> mg' = 2
       \<and> highlighted_nodes s' = [] \<and> selected_nodes s' = [] \<and> cur_node s' = - 1
       \<and> ng2id s' = [] \<and> cur_view_mode s' = gvrfm_single_mode
       \<and> node_map s' = [(0, \<lparr>gn_text = ''block 0'', gn_hint = []\<rparr>),
                         (1, \<lparr>gn_text = ''block 1'', gn_hint = []\<rparr>)])"
proof -
  let ?s = "redo_layout gvrfm_single_mode ex_view"
  have h: "refresh_mode ?s \<noteq> gvrfm_soft"
    by (simp add: redo_layout_def emit_def)
  have rm: "refresh_mode ?s = gvrfm_single_mode"
    by (simp add: redo_layout_def emit_def)
  have old: "highlighted_nodes ?s = [(0, 0x00CCFF), (3, 0x00CCFF)]
           \<and> selected_nodes ?s = [(0, NODE_SEL_COLOR)]"
    by (simp add: redo_layout_def emit_def ex_view_def gsgraphview_ctor_def)
  have b: "func_to_mgraph (ex_host 4) (mg_clear (ex_host 4) 1) [] (func_fc ?s)
             (append_node_id (options ?s))
           = (2, [(0, \<lparr>gn_text = ''block 0'', gn_hint = []\<rparr>),
                  (1, \<lparr>gn_text = ''block 1'', gn_hint = []\<rparr>)])"
    by (simp add: ex_host_def)
  from view_mode_transition_resets [OF h, of "ex_host 4" 1, THEN conjunct1] rm b old h
  show ?thesis
    by (auto split: prod.splits)
qed

section \<open>Combining node groups\<close>



text \<open>
  Claim C6. A combine request in a view mode other than the combined one is rejected: the
  message "Groupping is only available in combined mode" is printed, nothing else in the
  view changes and \<^verbatim>\<open>combine_ngl\<close> is not called. Whenever a combine request
  does call \<^verbatim>\<open>combine_ngl\<close>, the view mode is the combined one.
\<close>

theorem combine_only_in_combined_mode:
  "(cur_view_mode s \<noteq> gvrfm_combined_mode \<longrightarrow>
      on_menu_combine_ngs h s =
        s\<lparr>out := out s @
           [Msg (STR_GS_MSG @ ''Groupping is only available in combined mode\<newline>'') []]\<rparr>
    \<and> gm (on_menu_combine_ngs h s) = gm s
    \<and> (\<forall>n. GmCombineNgl n \<notin> set (new_events s (on_menu_combine_ngs h s))))
 \<and> ((\<exists>n. GmCombineNgl n \<in> set (new_events s (on_menu_combine_ngs h s))) \<longrightarrow>
      cur_view_mode s = gvrfm_combined_mode)"
  by (simp add: on_menu_combine_ngs_def emit_def new_events_def
        refresh_parent_def redo_layout_def Let_def)

theorem combine_only_in_combined_mode_witness:
  "cur_view_mode (ex_view\<lparr>cur_view_mode := gvrfm_single_mode,
                         selected_nodes := [(0, NODE_SEL_COLOR), (1, NODE_SEL_COLOR)]\<rparr>)
     \<noteq> gvrfm_combined_mode
 \<and> on_menu_combine_ngs (ex_host 4)
     (ex_view\<lparr>cur_view_mode := gvrfm_single_mode,
              selected_nodes := [(0, NODE_SEL_COLOR), (1, NODE_SEL_COLOR)]\<rparr>)
   = ex_view\<lparr>cur_view_mode := gvrfm_single_mode,
             selected_nodes := [(0, NODE_SEL_COLOR), (1, NODE_SEL_COLOR)],
             out := [Msg ''GS: Groupping is only available in combined mode\<newline>'' []]\<rparr>
 \<and> new_events
      (ex_view\<lparr>selected_nodes := [(0, NODE_SEL_COLOR), (1, NODE_SEL_COLOR)]\<rparr>)
      (on_menu_combine_ngs (ex_host 4)
         (ex_view\<lparr>selected_nodes := [(0, NODE_SEL_COLOR), (1, NODE_SEL_COLOR)]\<rparr>))
   = [GmCombineNgl 2, RefreshChooser ''Graph Slick - Panel'', RefreshViewer]"
proof -
  let ?s = "ex_view\<lparr>cur_view_mode := gvrfm_single_mode,
                    selected_nodes := [(0, NODE_SEL_COLOR), (1, NODE_SEL_COLOR)]\<rparr>"
  have h: "cur_view_mode ?s \<noteq> gvrfm_combined_mode"
    by simp
  have o: "out ?s = []"
    by (simp add: ex_view_def gsgraphview_ctor_def)
  from combine_only_in_combined_mode [of ?s "ex_host 4", THEN conjunct1] h o
  have a: "on_menu_combine_ngs (ex_host 4) ?s
             = ?s\<lparr>out := [Msg ''GS: Groupping is only available in combined mode\<newline>'' []]\<rparr>"
    by (simp add: STR_GS_MSG_def)
  have b: "new_events
      (ex_view\<lparr>selected_nodes := [(0, NODE_SEL_COLOR), (1, NODE_SEL_COLOR)]\<rparr>)
      (on_menu_combine_ngs (ex_host 4)
         (ex_view\<lparr>selected_nodes := [(0, NODE_SEL_COLOR), (1, NODE_SEL_COLOR)]\<rparr>))
   = [GmCombineNgl 2, RefreshChooser ''Graph Slick - Panel'', RefreshViewer]"
    by (simp add: on_menu_combine_ngs_def new_events_def emit_def refresh_parent_def
          redo_layout_def Let_def ex_view_def gsgraphview_ctor_def)
  from h a b show ?thesis by simp
qed


section \<open>Loading a group file\<close>

lemma load_file_total:
  "ch_gm s \<noteq> gm_dangling \<Longrightarrow> \<exists>r s'. load_file h fn s = Some (r, s')"
  by (auto simp: load_file_def Let_def split: prod.splits option.splits)

text \<open>
  The calls \<^verbatim>\<open>load_file\<close> makes: after the parse it either stops with a message
  and returns false, or sanitizes and returns true.
\<close>

lemma load_file_success:
  assumes "load_file h fn s = Some (True, s')"
  shows "\<exists>g1 fc sane g2.
           sanitize_groupman h g1 fc = (sane, g2)
         \<and> ch_gm s' = gm_live (if sane then gm_initialize_lookups h g2 else g2)
         \<and> ch_out s' = ch_out s @ delete_gm (ch_gm s)
                         @ [GmNew, GmParse fn False True, SanitizeGroupman sane]
                         @ (if sane then [GmInitializeLookups] else [])"
proof -
  from assms have nd: "ch_gm s \<noteq> gm_dangling"
    by (auto simp: load_file_def split: if_splits)
  obtain parsed g1 where p: "gm_parse h fn False (gm_new h) = (parsed, g1)"
    by (cases "gm_parse h fn False (gm_new h)")
  from assms nd p have parsed: "parsed"
    by 
      (auto simp: load_file_def Let_def split: if_splits option.splits prod.splits)
  from assms nd p parsed obtain nd1 where n: "gm_get_first_nd h g1 = Some nd1"
    by (cases "gm_get_first_nd h g1") 
      (auto simp: load_file_def Let_def split: if_splits option.splits prod.splits)
  from assms nd p parsed n obtain ea where f: "get_func h (nd_start nd1) = Some ea"
    by (cases "get_func h (nd_start nd1)") 
      (auto simp: load_file_def Let_def split: if_splits option.splits prod.splits)
  obtain built fc1 where c: "get_func_flowchart h ea (ch_func_fc s) = (built, fc1)"
    by (cases "get_func_flowchart h ea (ch_func_fc s)")
  from assms nd p parsed n f c have built: "built"
    by (auto simp: load_file_def Let_def ch_emit_def split: if_splits option.splits prod.splits)
  obtain sane g2 where z: "sanitize_groupman h g1 fc1 = (sane, g2)"
    by (cases "sanitize_groupman h g1 fc1")
  from assms nd p parsed n f c built z
  have "ch_gm s' = gm_live (if sane then gm_initialize_lookups h g2 else g2)
      \<and> ch_out s' = ch_out s @ delete_gm (ch_gm s)
                      @ [GmNew, GmParse fn False True, SanitizeGroupman sane]
                      @ (if sane then [GmInitializeLookups] else [])"
    by (auto simp: load_file_def Let_def ch_emit_def populate_chooser_lines_def split: if_splits)
  with z show ?thesis by blast
qed

lemma load_file_failure:
  assumes "load_file h fn s = Some (False, s')"
  shows "\<exists>parsed m a tl. (tl = [] \<or> tl = [GmDelete])
         \<and> ch_out s' = ch_out s @ delete_gm (ch_gm s)
                         @ [GmNew, GmParse fn False parsed, Msg m a] @ tl"
proof -
  from assms have nd: "ch_gm s \<noteq> gm_dangling"
    by (auto simp: load_file_def split: if_splits)
  obtain parsed g1 where p: "gm_parse h fn False (gm_new h) = (parsed, g1)"
    by (cases "gm_parse h fn False (gm_new h)")
  show ?thesis
  proof (cases parsed)
    case False
    with assms nd p show ?thesis
      by (auto simp: load_file_def Let_def ch_emit_def split: if_splits option.splits prod.splits)
  next
    case True
    note parsed = this
    show ?thesis
    proof (cases "gm_get_first_nd h g1")
      case None
      with assms nd p parsed show ?thesis
        by (auto simp: load_file_def Let_def ch_emit_def split: if_splits option.splits prod.splits)
    next
      case (Some nd1)
      note n = this
      show ?thesis
      proof (cases "get_func h (nd_start nd1)")
        case None
        with assms nd p parsed n show ?thesis
          by (auto simp: load_file_def Let_def ch_emit_def
                split: if_splits option.splits prod.splits)
      next
        case (Some ea)
        obtain built fc1 where c: "get_func_flowchart h ea (ch_func_fc s) = (built, fc1)"
          by (cases "get_func_flowchart h ea (ch_func_fc s)")
        obtain sane g2 where z: "sanitize_groupman h g1 fc1 = (sane, g2)"
          by (cases "sanitize_groupman h g1 fc1")
        from assms nd p parsed n Some c z show ?thesis
          by (cases built)
            (auto simp: load_file_def Let_def ch_emit_def
               split: if_splits option.splits prod.splits)
      qed
    qed
  qed
qed

lemma delete_gm_no_lookups: "GmInitializeLookups \<notin> set (delete_gm p)"
  by (simp add: delete_gm_def)

lemma delete_gm_no_parse: "GmParse f c r \<notin> set (delete_gm p)"
  by (simp add: delete_gm_def)

lemma load_file_parse_failure:
  assumes "ch_gm s \<noteq> gm_dangling" and "gm_parse h fn False (gm_new h) = (False, g1)"
  shows "\<exists>s'. load_file h fn s = Some (False, s') \<and> ch_gm s' = gm_dangling
            \<and> ch_nodes s' = ch_nodes s
            \<and> ch_out s' = ch_out s @ delete_gm (ch_gm s)
                 @ [GmNew, GmParse fn False False,
                    Msg (STR_GS_MSG @ ''Error: failed to parse group file '%s'\<newline>'')
                      [ArgStr fn],
                    GmDelete]"
  using assms by (simp add: load_file_def ch_emit_def)

lemma load_file_no_addresses:
  assumes "ch_gm s \<noteq> gm_dangling" and "gm_parse h fn False (gm_new h) = (True, g1)"
    and "gm_get_first_nd h g1 = None"
  shows "\<exists>s'. load_file h fn s = Some (False, s') \<and> ch_gm s' = gm_live g1
            \<and> ch_out s' = ch_out s @ delete_gm (ch_gm s)
                 @ [GmNew, GmParse fn False True,
                    Msg (STR_GS_MSG @ ''Invalid input file! No addresses defined\<newline>'') []]"
  using assms by (simp add: load_file_def ch_emit_def)

lemma load_file_sanitize_failure:
  assumes "ch_gm s \<noteq> gm_dangling" and "gm_parse h fn False (gm_new h) = (True, g1)"
    and "gm_get_first_nd h g1 = Some nd" and "get_func h (nd_start nd) = Some ea"
    and "get_func_flowchart h ea (ch_func_fc s) = (True, fc1)"
    and "sanitize_groupman h g1 fc1 = (False, g2)"
  shows "\<exists>s'. load_file h fn s = Some (True, s') \<and> ch_gm s' = gm_live g2
            \<and> ch_out s' = ch_out s @ delete_gm (ch_gm s)
                            @ [GmNew, GmParse fn False True, SanitizeGroupman False]"
  using assms by (simp add: load_file_def ch_emit_def populate_chooser_lines_def)

text \<open>
  Claim C5. Whenever \<^verbatim>\<open>load_file\<close> runs (its \<^verbatim>\<open>gm\<close> pointer not
  dangling), it returns, and among the calls it made \<^verbatim>\<open>initialize_lookups\<close>
  occurs only as the last one, directly after a \<^verbatim>\<open>sanitize_groupman\<close> that
  returned true, and on the group manager that this call sanitized. The parse before it is
  asked not to build the lookups (its second argument is false).
\<close>

theorem initialize_lookups_only_after_sanitize:
  assumes "ch_gm s \<noteq> gm_dangling"
  shows "\<exists>r s' new. load_file h fn s = Some (r, s') \<and> ch_out s' = ch_out s @ new
           \<and> (GmInitializeLookups \<in> set new \<longrightarrow>
                (\<exists>pre. new = pre @ [SanitizeGroupman True, GmInitializeLookups]
                       \<and> GmInitializeLookups \<notin> set pre)
              \<and> (\<exists>g1 fc g2. sanitize_groupman h g1 fc = (True, g2)
                    \<and> ch_gm s' = gm_live (gm_initialize_lookups h g2)))
           \<and> (\<forall>f c p. GmParse f c p \<in> set new \<longrightarrow> \<not> c)"
proof -
  obtain r s' where ld: "load_file h fn s = Some (r, s')"
    using load_file_total [OF assms] by blast
  show ?thesis
  proof (cases r)
    case True
    with ld have "load_file h fn s = Some (True, s')" by simp
    from load_file_success [OF this] obtain g1 fc sane g2 where
      z: "sanitize_groupman h g1 fc = (sane, g2)" and
      g: "ch_gm s' = gm_live (if sane then gm_initialize_lookups h g2 else g2)" and
      o: "ch_out s' = ch_out s @ delete_gm (ch_gm s)
                        @ [GmNew, GmParse fn False True, SanitizeGroupman sane]
                        @ (if sane then [GmInitializeLookups] else [])"
      by blast
    let ?new = "delete_gm (ch_gm s) @ [GmNew, GmParse fn False True, SanitizeGroupman sane]
                  @ (if sane then [GmInitializeLookups] else [])"
    have a: "GmInitializeLookups \<in> set ?new \<longrightarrow>
               (\<exists>pre. ?new = pre @ [SanitizeGroupman True, GmInitializeLookups]
                      \<and> GmInitializeLookups \<notin> set pre)
             \<and> (\<exists>g1 fc g2. sanitize_groupman h g1 fc = (True, g2)
                   \<and> ch_gm s' = gm_live (gm_initialize_lookups h g2))"
    proof
      assume "GmInitializeLookups \<in> set ?new"
      then have sane: "sane"
        by (auto simp: delete_gm_no_lookups split: if_splits)
      then have "?new = (delete_gm (ch_gm s) @ [GmNew, GmParse fn False True])
                          @ [SanitizeGroupman True, GmInitializeLookups]
               \<and> GmInitializeLookups \<notin> set (delete_gm (ch_gm s) @ [GmNew, GmParse fn False True])"
        by (simp add: delete_gm_no_lookups)
      then have "\<exists>pre. ?new = pre @ [SanitizeGroupman True, GmInitializeLookups]
                      \<and> GmInitializeLookups \<notin> set pre"
        by blast
      moreover from z g sane
      have "\<exists>g1 fc g2. sanitize_groupman h g1 fc = (True, g2)
              \<and> ch_gm s' = gm_live (gm_initialize_lookups h g2)"
        by auto
      ultimately show "(\<exists>pre. ?new = pre @ [SanitizeGroupman True, GmInitializeLookups]
                      \<and> GmInitializeLookups \<notin> set pre)
             \<and> (\<exists>g1 fc g2. sanitize_groupman h g1 fc = (True, g2)
                   \<and> ch_gm s' = gm_live (gm_initialize_lookups h g2))"
        by simp
    qed
    have b: "\<forall>f c p. GmParse f c p \<in> set ?new \<longrightarrow> \<not> c"
      by (auto simp: delete_gm_no_parse split: if_splits)
    from o have "ch_out s' = ch_out s @ ?new" by simp
    with ld a b show ?thesis by blast
  next
    case False
    with ld have "load_file h fn s = Some (False, s')" by simp
    from load_file_failure [OF this] obtain parsed m a tl where
      tl: "tl = [] \<or> tl = [GmDelete]" and
      o: "ch_out s' = ch_out s @ delete_gm (ch_gm s)
                        @ [GmNew, GmParse fn False parsed, Msg m a] @ tl"
      by blast
    let ?new = "delete_gm (ch_gm s) @ [GmNew, GmParse fn False parsed, Msg m a] @ tl"
    from tl have a: "GmInitializeLookups \<notin> set ?new"
      by (auto simp: delete_gm_no_lookups)
    from tl have b: "\<forall>f c p. GmParse f c p \<in> set ?new \<longrightarrow> \<not> c"
      by (auto simp: delete_gm_no_parse)
    from o have "ch_out s' = ch_out s @ ?new" by simp
    with ld a b show ?thesis by blast
  qed
qed

theorem initialize_lookups_only_after_sanitize_witness:
  "ch_gm ex_chooser \<noteq> gm_dangling
 \<and> (\<exists>r s'. load_file (ex_host 4) ''f1.bbgroup'' ex_chooser = Some (r, s')
       \<and> r
       \<and> ch_out s' = [GmNew, GmParse ''f1.bbgroup'' False True,
                      SanitizeGroupman True, GmInitializeLookups]
       \<and> ch_gm s' = gm_live [ex_sg])"
proof -
  have h: "ch_gm ex_chooser \<noteq> gm_dangling"
    by (simp add: ex_chooser_def gschooser_ctor_def)
  from initialize_lookups_only_after_sanitize [OF h, of "ex_host 4" "''f1.bbgroup''"]
  obtain r s' new where
    ld: "load_file (ex_host 4) ''f1.bbgroup'' ex_chooser = Some (r, s')"
    by blast
  have ev: "load_file (ex_host 4) ''f1.bbgroup'' ex_chooser =
     Some (True, (populate_chooser_lines (ex_host 4) [ex_sg] ex_chooser)
             \<lparr>ch_gm := gm_live [ex_sg], ch_func_fc := 4,
              ch_out := [GmNew, GmParse ''f1.bbgroup'' False True,
                         SanitizeGroupman True, GmInitializeLookups]\<rparr>)"
    by (simp add: load_file_def ex_host_def ex_chooser_def gschooser_ctor_def ch_emit_def
          ex_sg_def populate_chooser_lines_def delete_gm_def Let_def)
  from ld ev have "r \<and> ch_out s' = [GmNew, GmParse ''f1.bbgroup'' False True,
                      SanitizeGroupman True, GmInitializeLookups]
       \<and> ch_gm s' = gm_live [ex_sg]"
    by auto
  with ld h show ?thesis by blast
qed

text \<open>
  Claim C3, evaluated on the example host. A file that parses but defines no address
  makes \<^verbatim>\<open>load_file\<close> print "Invalid input file! No addresses defined" and
  return false, with \<^verbatim>\<open>gm\<close> still referring to the group manager just parsed.
  A file that fails to parse makes it print the parse error, delete the group manager
  and return false; \<^verbatim>\<open>gm\<close> is left dangling.
\<close>

theorem load_file_no_addresses_keeps_gm:
  "load_file (ex_host 4) ''empty.bbgroup'' ex_chooser =
     Some (False, ex_chooser\<lparr>ch_gm := gm_live [],
             ch_out := [GmNew, GmParse ''empty.bbgroup'' False True,
                        Msg ''GS: Invalid input file! No addresses defined\<newline>'' []]\<rparr>)
 \<and> load_file (ex_host 4) ''bad.bbgroup'' ex_chooser =
     Some (False, ex_chooser\<lparr>ch_gm := gm_dangling,
             ch_out := [GmNew, GmParse ''bad.bbgroup'' False False,
                        Msg ''GS: Error: failed to parse group file '%s'\<newline>''
                          [ArgStr ''bad.bbgroup''],
                        GmDelete]\<rparr>)"
  by (simp add: load_file_def ex_host_def ex_chooser_def gschooser_ctor_def ch_emit_def
        STR_GS_MSG_def delete_gm_def)

text \<open>
  Claim C4, evaluated on the example host with a flow chart that has no block, so that
  \<^verbatim>\<open>sanitize_groupman\<close> returns false. \<^verbatim>\<open>load_file_show_graph\<close>
  returns true: no message is printed, the lookups are not initialised, the chooser lines
  are filled, the form of the graph view is created and opened, and the chooser holds
  the new view.
\<close>

theorem sanitize_failure_still_shows_graph:
  "(case load_file_show_graph (ex_host 0) gvrfm_soft ''f1.bbgroup'' ex_chooser of
      None \<Rightarrow> False
    | Some (r, s') \<Rightarrow>
        r
      \<and> ch_out s' = [GmNew, GmParse ''f1.bbgroup'' False True, SanitizeGroupman False,
                     CreateTForm True, OpenTForm]
      \<and> gsgv s' \<noteq> None
      \<and> ch_gm s' = gm_live [ex_sg]
      \<and> length (ch_nodes s') = 3
      \<and> last_loaded_file s' = ''f1.bbgroup'')"
  by (simp add: load_file_show_graph_def load_file_def ex_host_def ex_chooser_def
        gschooser_ctor_def ch_emit_def Let_def ex_sg_def ex_nd_def populate_chooser_lines_def
        sg_lines_def show_graph_def load_options_def ex_options_def delete_gm_def)

text \<open>
  \<^verbatim>\<open>load_file_show_graph\<close> and \<^verbatim>\<open>reload_input_file\<close> reach the group
  manager through \<^verbatim>\<open>load_file\<close> only: what \<^verbatim>\<open>show_graph\<close> adds to the
  log are the events of the form.
\<close>

lemma show_graph_loop_events:
  "set (fst (show_graph_loop h fc g opts cvm0 ns))
     \<subseteq> {CreateTForm True, CreateTForm False, OpenTForm, CloseTForm}"
  by (induction ns) (auto simp: Let_def split: prod.splits)

lemma show_graph_no_lookups:
  "GmInitializeLookups \<notin> set (fst (show_graph h fc g opts cvm0))"
  using show_graph_loop_events [of h fc g opts cvm0 "[0, 1]"]
  by (auto simp: show_graph_def)

lemma load_file_show_graph_events:
  assumes "load_file_show_graph h cvm0 fn s = Some (r, s')"
  shows "\<exists>r1 s1 evs. load_file h fn (s\<lparr>ch_options := load_options (ch_options s)\<rparr>)
                        = Some (r1, s1)
           \<and> ch_out s' = ch_out s1 @ evs \<and> GmInitializeLookups \<notin> set evs"
proof -
  from assms obtain r1 s1 where
    ld: "load_file h fn (s\<lparr>ch_options := load_options (ch_options s)\<rparr>) = Some (r1, s1)"
    by (auto simp: load_file_show_graph_def split: option.splits)
  show ?thesis
  proof (cases r1)
    case False
    with assms ld have "ch_out s' = ch_out s1 @ []"
      by (simp add: load_file_show_graph_def)
    with ld show ?thesis by fastforce
  next
    case True
    with assms ld obtain g where g: "ch_gm s1 = gm_live g"
      by (cases "ch_gm s1") (auto simp: load_file_show_graph_def)
    obtain evs v where sg: "show_graph h (ch_func_fc s1) g (ch_options s1) cvm0 = (evs, v)"
      by (cases "show_graph h (ch_func_fc s1) g (ch_options s1) cvm0")
    from assms ld True g sg have "ch_out s' = ch_out s1 @ evs"
      by (cases v) (auto simp: load_file_show_graph_def ch_emit_def Let_def)
    moreover from show_graph_no_lookups [of h "ch_func_fc s1" g "ch_options s1" cvm0] sg
    have "GmInitializeLookups \<notin> set evs" by simp
    ultimately show ?thesis using ld by blast
  qed
qed

end
